theory Spec2Isabelle
  imports Complex_Main "HOL-Library.Sublist"
begin

section \<open>JavaScript values\<close>

text \<open>
  The validator is dynamically typed: a form field, a rule attribute or the payload a
  custom validator throws may be any value. The values modelled are the primitives,
  arrays and plain objects. Arrays and objects carry the address of the object they
  denote, since \<open>===\<close> compares them by identity; an object is the list of its own
  properties. Functions, \<open>Date\<close> and \<open>RegExp\<close> instances are not part of the data domain
  (a rule's callbacks and its pattern have types of their own below).

  A number is \<open>NaN\<close>, an infinity or a finite value; the finite values are taken as exact
  rationals (every double is one), and the two zeros are not told apart (\<open>===\<close> does not
  either).
\<close>

datatype jsnum = NaN | PosInf | NegInf | Fin rat

type_synonym ref = nat

datatype jsval =
    JUndefined
  | JNull
  | JBool bool
  | JNum jsnum
  | JStr string
  | JArr ref "jsval list"
  | JObj ref "(string \<times> jsval) list"

text \<open>What the code can throw by itself: \<open>new Error(msg)\<close>, and the \<open>TypeError\<close> of the
  runtime (a property read on \<open>null\<close> or \<open>undefined\<close>, a call of something that is not a
  function).\<close>

datatype jserr = Error string | TypeError

text \<open>Truthiness, as \<open>if (x)\<close>, \<open>!x\<close> and \<open>x || y\<close> see it.\<close>

fun truthy :: "jsval \<Rightarrow> bool" where
  "truthy JUndefined = False"
| "truthy JNull = False"
| "truthy (JBool b) = b"
| "truthy (JNum NaN) = False"
| "truthy (JNum (Fin q)) = (q \<noteq> 0)"
| "truthy (JNum _) = True"
| "truthy (JStr s) = (s \<noteq> [])"
| "truthy (JArr _ _) = True"
| "truthy (JObj _ _) = True"

datatype jstype = TUndefined | TObject | TBoolean | TNumber | TString

fun typeof :: "jsval \<Rightarrow> jstype" where
  "typeof JUndefined = TUndefined"
| "typeof JNull = TObject"
| "typeof (JBool _) = TBoolean"
| "typeof (JNum _) = TNumber"
| "typeof (JStr _) = TString"
| "typeof (JArr _ _) = TObject"
| "typeof (JObj _ _) = TObject"

text \<open>\<open>a === b\<close>: primitives by value (\<open>NaN\<close> differs from itself), objects by identity.\<close>

fun strict_eq :: "jsval \<Rightarrow> jsval \<Rightarrow> bool" where
  "strict_eq JUndefined JUndefined = True"
| "strict_eq JNull JNull = True"
| "strict_eq (JBool a) (JBool b) = (a = b)"
| "strict_eq (JNum a) (JNum b) = (a \<noteq> NaN \<and> a = b)"
| "strict_eq (JStr a) (JStr b) = (a = b)"
| "strict_eq (JArr r _) (JArr r' _) = (r = r')"
| "strict_eq (JObj r _) (JObj r' _) = (r = r')"
| "strict_eq _ _ = False"

text \<open>\<open>a <= b\<close> and \<open>a > b\<close> on numbers; every comparison with \<open>NaN\<close> is false.\<close>

fun num_le :: "jsnum \<Rightarrow> jsnum \<Rightarrow> bool" where
  "num_le NaN _ = False"
| "num_le _ NaN = False"
| "num_le NegInf _ = True"
| "num_le _ PosInf = True"
| "num_le PosInf _ = False"
| "num_le _ NegInf = False"
| "num_le (Fin a) (Fin b) = (a \<le> b)"

fun num_gt :: "jsnum \<Rightarrow> jsnum \<Rightarrow> bool" where
  "num_gt NaN _ = False"
| "num_gt _ NaN = False"
| "num_gt a b = (\<not> num_le a b)"

text \<open>\<open>obj[key]\<close> on a value that is not \<open>null\<close> or \<open>undefined\<close>: an own property of an
  object, \<open>undefined\<close> when there is none. (Properties inherited from the prototype, and
  the index and \<open>length\<close> properties of strings and arrays, are not read this way by the
  code under study.)\<close>

fun get_prop :: "jsval \<Rightarrow> string \<Rightarrow> jserr + jsval" where
  "get_prop JUndefined k = Inl TypeError"
| "get_prop JNull k = Inl TypeError"
| "get_prop (JObj r ps) k = (case map_of ps k of Some v \<Rightarrow> Inr v | None \<Rightarrow> Inr JUndefined)"
| "get_prop _ k = Inr JUndefined"


section \<open>Type predicates (the static methods of \<open>Validator\<close>)\<close>

text \<open>\<open>isEmpty\<close>: \<open>value === '' || value === null || value === undefined\<close>.\<close>

definition isEmpty :: "jsval \<Rightarrow> bool" where
  "isEmpty v = (strict_eq v (JStr []) \<or> strict_eq v JNull \<or> strict_eq v JUndefined)"

definition isString :: "jsval \<Rightarrow> bool" where
  "isString v = (typeof v = TString)"

text \<open>\<open>typeof value === 'number' && !isNaN(value)\<close>: the infinities are numbers.\<close>

definition isNumber :: "jsval \<Rightarrow> bool" where
  "isNumber v = (case v of JNum x \<Rightarrow> x \<noteq> NaN | _ \<Rightarrow> False)"

definition isBoolean :: "jsval \<Rightarrow> bool" where
  "isBoolean v = (typeof v = TBoolean)"

text \<open>\<open>typeof value === 'function'\<close> and \<open>value instanceof RegExp\<close>: no value of the data
  domain is a function or a regular expression.\<close>

definition isFunction :: "jsval \<Rightarrow> bool" where
  "isFunction v = False"

definition isRegexp :: "jsval \<Rightarrow> bool" where
  "isRegexp v = False"

definition isArray :: "jsval \<Rightarrow> bool" where
  "isArray v = (case v of JArr _ _ \<Rightarrow> True | _ \<Rightarrow> False)"

text \<open>\<open>typeof value === 'object' && !Validator.isArray(value)\<close>. The type of \<open>null\<close> is
  \<open>'object'\<close>.\<close>

definition isObject :: "jsval \<Rightarrow> bool" where
  "isObject v = (typeof v = TObject \<and> \<not> isArray v)"

text \<open>\<open>isDate\<close> reads \<open>value.getTime\<close>, \<open>value.getMonth\<close> and \<open>value.getYear\<close> and asks
  for functions: the read throws on \<open>null\<close> and \<open>undefined\<close>, and no property of a data
  value is a function.\<close>

definition isDate :: "jsval \<Rightarrow> jserr + bool" where
  "isDate v = (case get_prop v ''getTime'' of Inl e \<Rightarrow> Inl e | Inr _ \<Rightarrow> Inr False)"

subsection \<open>\<open>isInteger\<close> and \<open>isFloat\<close>\<close>

text \<open>
  \<open>parseInt(value, 10)\<close> on a number turns the number into its decimal string and reads
  the integer that string starts with. Zero and the magnitudes from \<open>1e-6\<close> up to, not
  including, \<open>1e21\<close> are printed in positional notation, so the integer read is the
  number without its fraction. Every other finite number is printed in exponent
  notation, one digit before the point, and \<open>parseInt\<close> stops after that digit; the
  strings \<open>NaN\<close> and \<open>Infinity\<close> start with no digit at all and give \<open>NaN\<close>.
  The leading digit is taken from the exact value here (the printed digits are the
  shortest that read back as the same double, which can round a run of nines up).
\<close>

function lead_digit :: "nat \<Rightarrow> nat" where
  "lead_digit n = (if n < 10 then n else lead_digit (n div 10))"
  by pat_completeness auto
termination
  by (relation "measure id") auto

function first_sig :: "nat \<Rightarrow> nat \<Rightarrow> nat" where
  "first_sig a b = (if a = 0 \<or> b \<le> a then a div b else first_sig (10 * a) b)"
  by pat_completeness auto
termination
  by (relation "measure (\<lambda>(a, b). b - a)") auto

definition parseInt10 :: "jsnum \<Rightarrow> jsnum" where
  "parseInt10 x =
     (case x of
        Fin q \<Rightarrow>
          (if q = 0 \<or> (1 / 10 ^ 6 \<le> \<bar>q\<bar> \<and> \<bar>q\<bar> < 10 ^ 21)
           then Fin (sgn q * of_int \<lfloor>\<bar>q\<bar>\<rfloor>)
           else if 10 ^ 21 \<le> \<bar>q\<bar>
           then Fin (sgn q * of_nat (lead_digit (nat \<lfloor>\<bar>q\<bar>\<rfloor>)))
           else (case quotient_of \<bar>q\<bar> of
                   (a, b) \<Rightarrow> Fin (sgn q * of_nat (first_sig (nat a) (nat b)))))
      | _ \<Rightarrow> NaN)"

text \<open>\<open>Validator.isNumber(value) && parseInt(value, 10) === value\<close>.\<close>

definition isInteger :: "jsval \<Rightarrow> bool" where
  "isInteger v =
     (isNumber v \<and> (case v of JNum x \<Rightarrow> strict_eq (JNum (parseInt10 x)) v | _ \<Rightarrow> False))"

text \<open>validator-ts.ts: \<open>Validator.isNumber(value) && !Validator.isInteger(value)\<close>.\<close>

definition isFloat :: "jsval \<Rightarrow> jserr + bool" where
  "isFloat v = Inr (isNumber v \<and> \<not> isInteger v)"

text \<open>validator-1.0.0.js and validator-2.0.0.js:
  \<open>Validator.isNumber(value) && !Validator.isTnteger(value)\<close>. The class has no static
  method \<open>isTnteger\<close>; once \<open>isNumber\<close> has let the value through, the call of the
  missing method throws a \<open>TypeError\<close>.\<close>

definition isFloat_v2 :: "jsval \<Rightarrow> jserr + bool" where
  "isFloat_v2 v = (if isNumber v then Inl TypeError else Inr False)"

subsection \<open>\<open>oneOf\<close> and \<open>capitalize\<close>\<close>

definition oneOf :: "jsval \<Rightarrow> jsval \<Rightarrow> jserr + bool" where
  "oneOf v validList =
     (case validList of
        JArr _ xs \<Rightarrow> Inr (list_ex (\<lambda>x. strict_eq v x) xs)
      | _ \<Rightarrow> Inl (Error ''validList must be of array type''))"

text \<open>\<open>toUpperCase\<close> on one character, for the ASCII letters.\<close>

definition toUpperCase :: "char \<Rightarrow> char" where
  "toUpperCase c =
     (case map_of (zip ''abcdefghijklmnopqrstuvwxyz'' ''ABCDEFGHIJKLMNOPQRSTUVWXYZ'') c of
        Some u \<Rightarrow> u
      | None \<Rightarrow> c)"

definition capitalize :: "jsval \<Rightarrow> jserr + string" where
  "capitalize str =
     (case str of
        JStr s \<Rightarrow> Inr (case s of [] \<Rightarrow> [] | c # cs \<Rightarrow> toUpperCase c # cs)
      | _ \<Rightarrow> Inl (Error ''Parameter must be of string type''))"

text \<open>\<open>Validator.types\<close>.\<close>

definition types :: "jsval" where
  "types = JArr 0 (map JStr [''string'', ''number'', ''boolean'', ''function'', ''float'',
     ''integer'', ''array'', ''object'', ''date'', ''regexp''])"

text \<open>\<open>Validator[name]\<close>, for the names the type check builds. The two JavaScript files
  differ from the TypeScript file in \<open>isFloat\<close> only.\<close>

definition Validator_static :: "string \<Rightarrow> (jsval \<Rightarrow> jserr + bool) option" where
  "Validator_static = map_of
     [(''isString'', \<lambda>v. Inr (isString v)),
      (''isNumber'', \<lambda>v. Inr (isNumber v)),
      (''isBoolean'', \<lambda>v. Inr (isBoolean v)),
      (''isFunction'', \<lambda>v. Inr (isFunction v)),
      (''isFloat'', isFloat),
      (''isInteger'', \<lambda>v. Inr (isInteger v)),
      (''isArray'', \<lambda>v. Inr (isArray v)),
      (''isObject'', \<lambda>v. Inr (isObject v)),
      (''isDate'', isDate),
      (''isRegexp'', \<lambda>v. Inr (isRegexp v))]"

definition Validator_static_v2 :: "string \<Rightarrow> (jsval \<Rightarrow> jserr + bool) option" where
  "Validator_static_v2 = (Validator_static(''isFloat'' \<mapsto> isFloat_v2))"


section \<open>Rules, callbacks and the validator instance\<close>

text \<open>
  The callbacks a configuration supplies (the per-field transform, a rule's custom
  validator, a message given as a function, the message hook) are functions of the
  caller: they may read and change state of their own. That state is the type
  parameter \<open>'w\<close>, passed in and handed back by each call. The transform, the message
  function and the hook are taken to return normally; a custom validator may return a
  value, return a promise, or throw.

  A promise is modelled by the state it ends in.
\<close>

datatype promise = Fulfils jsval | Rejects jsval | NeverSettles

datatype vres = Returns jsval | ReturnsPromise promise | Throws jsval

text \<open>\<open>rule.pattern\<close>: a \<open>RegExp\<close> is modelled by what \<open>pattern.test(value)\<close> answers (the
  test is taken to be stateless, that is, without the \<open>g\<close> and \<open>y\<close> flags); anything else
  is a data value. Likewise for \<open>rule.validator\<close> and \<open>rule.message\<close>.\<close>

datatype patt = NotRegExp jsval | RegExp "jsval \<Rightarrow> bool"

datatype 'w vcfg = NotFunction jsval | Function "jsval \<Rightarrow> 'w \<Rightarrow> vres \<times> 'w"

datatype 'w msg = Msg jsval | MsgFunction "'w \<Rightarrow> 'w"

text \<open>\<open>RuleItem\<close>; an attribute that is left out is \<open>undefined\<close>.\<close>

record 'w RuleItem =
  required :: jsval
  type :: jsval
  pattern :: patt
  validator :: "'w vcfg"
  maxlength :: jsval
  minlength :: jsval
  enum :: jsval
  message :: "'w msg"

definition no_rule :: "'w RuleItem" where
  "no_rule = \<lparr> required = JUndefined, type = JUndefined, pattern = NotRegExp JUndefined,
     validator = NotFunction JUndefined, maxlength = JUndefined, minlength = JUndefined,
     enum = JUndefined, message = Msg JUndefined \<rparr>"

text \<open>A property of the \<open>transform\<close> object is a function or some other value; the
  \<open>transform\<close> option itself is an object of such properties or some other value
  (\<open>undefined\<close> when the option is left out).\<close>

datatype 'w entry = Value jsval | Fun "jsval \<Rightarrow> 'w \<Rightarrow> jsval \<times> 'w"

datatype 'w transform_opt = TransformValue jsval | TransformObject "(string \<times> 'w entry) list"

datatype 'w rule_cfg = One "'w RuleItem" | Many "'w RuleItem list"

record 'w Config =
  rules :: "(string \<times> 'w rule_cfg) list"
  transform :: "'w transform_opt"
  messageHook :: "(jsval \<Rightarrow> 'w \<Rightarrow> 'w) option"

record 'w Validator =
  v_rules :: "(string \<times> 'w RuleItem list) list"
  v_transform :: "'w transform_opt"
  v_messageHook :: "(jsval \<Rightarrow> 'w \<Rightarrow> 'w) option"

text \<open>
  The constructors. \<open>config\<close> and \<open>config.rules\<close> are objects and \<open>messageHook\<close> is a
  function or absent by their types here, so of the guards only the one on \<open>transform\<close>
  can fire: \<open>transform && !Validator.isObject(transform)\<close>. Each rule entry is put in
  a list unless it is one already. validator-2.0.0.js knows no message hook.
\<close>

definition transform_rejected :: "'w transform_opt \<Rightarrow> bool" where
  "transform_rejected t =
     (case t of TransformValue v \<Rightarrow> truthy v \<and> \<not> isObject v | TransformObject _ \<Rightarrow> False)"

definition normalise :: "'w rule_cfg \<Rightarrow> 'w RuleItem list" where
  "normalise item = (case item of One r \<Rightarrow> [r] | Many rs \<Rightarrow> rs)"

definition new_Validator :: "'w Config \<Rightarrow> jserr + 'w Validator" where
  "new_Validator config =
     (if transform_rejected (transform config) then Inl (Error ''transform must be an object'')
      else Inr \<lparr> v_rules = map (\<lambda>(field, item). (field, normalise item)) (rules config),
                 v_transform = transform config,
                 v_messageHook = messageHook config \<rparr>)"

definition new_Validator_v2 :: "'w Config \<Rightarrow> jserr + 'w Validator" where
  "new_Validator_v2 config =
     (if transform_rejected (transform config) then Inl (Error ''transform must be an object'')
      else Inr \<lparr> v_rules = map (\<lambda>(field, item). (field, normalise item)) (rules config),
                 v_transform = transform config,
                 v_messageHook = None \<rparr>)"

section \<open>The checks of the chain\<close>

text \<open>
  What a call of a chain function gives once awaited: the value returned (a boolean, or
  the object \<open>{pass: false, message}\<close> of the custom check), an exception, or nothing
  ever, when the promise awaited never settles.
\<close>

datatype stepval = RBool bool | RFail jsval

datatype awaited = Returned stepval | Threw jserr | Unsettled

text \<open>
  What is observed of a run, besides its result: the calls of the transform with their
  argument, the calls of the chain functions with what came back, the calls of a custom
  validator with their argument, the warnings on the console, and the calls of a
  message function and of the hook.
\<close>

datatype check = ChkRequired | ChkType | ChkPattern | ChkMaxlen | ChkMinlen | ChkEnum | ChkCustom

datatype event =
    Transformed jsval
  | Checked check awaited
  | Invoked jsval
  | Warned string check
  | MessageCalled
  | Hooked jsval

text \<open>\<open>_validateRequired\<close> (the same in both files).\<close>

definition validateRequired :: "'w RuleItem \<Rightarrow> jsval \<Rightarrow> bool" where
  "validateRequired rule v = (if truthy (required rule) then \<not> isEmpty v else True)"

text \<open>The type check after the guard on empty values: the predicate is looked up under
  the name \<open>'is' + capitalize(type)\<close>.\<close>

definition type_check ::
  "(string \<Rightarrow> (jsval \<Rightarrow> jserr + bool) option) \<Rightarrow> 'w RuleItem \<Rightarrow> jsval \<Rightarrow> string
     \<Rightarrow> (jserr + bool) \<times> event list" where
  "type_check static rule v field =
     (if truthy (type rule) then
        (case oneOf (type rule) types of
           Inl e \<Rightarrow> (Inl e, [])
         | Inr True \<Rightarrow>
             (case capitalize (type rule) of
                Inl e \<Rightarrow> (Inl e, [])
              | Inr name \<Rightarrow>
                  (case static (''is'' @ name) of
                     None \<Rightarrow> (Inl TypeError, [])
                   | Some f \<Rightarrow> (f v, [])))
         | Inr False \<Rightarrow> (Inr True, [Warned field ChkType]))
      else (Inr True, []))"

definition pattern_check :: "'w RuleItem \<Rightarrow> jsval \<Rightarrow> string \<Rightarrow> (jserr + bool) \<times> event list" where
  "pattern_check rule v field =
     (case pattern rule of
        RegExp test \<Rightarrow> (Inr (test v), [])
      | NotRegExp p \<Rightarrow> if truthy p then (Inr True, [Warned field ChkPattern]) else (Inr True, []))"

text \<open>
  \<open>value.length\<close>, as \<open>value.length <= maxlength\<close> reads it (as a number): the read throws
  on \<open>null\<close> and \<open>undefined\<close>; strings and arrays have a length; numbers and booleans
  have none, and \<open>undefined\<close> compares as \<open>NaN\<close>. A plain object has the length it owns as
  a property when that is a number (an own \<open>length\<close> of another type would be converted
  by the comparison; such objects are not modelled and count as having none).
\<close>

definition length_of :: "jsval \<Rightarrow> jserr + jsnum" where
  "length_of v =
     (case v of
        JUndefined \<Rightarrow> Inl TypeError
      | JNull \<Rightarrow> Inl TypeError
      | JStr s \<Rightarrow> Inr (Fin (of_nat (length s)))
      | JArr _ xs \<Rightarrow> Inr (Fin (of_nat (length xs)))
      | JObj _ ps \<Rightarrow> (case map_of ps ''length'' of Some (JNum n) \<Rightarrow> Inr n | _ \<Rightarrow> Inr NaN)
      | _ \<Rightarrow> Inr NaN)"

definition as_number :: "jsval \<Rightarrow> jsnum" where
  "as_number v = (case v of JNum n \<Rightarrow> n | _ \<Rightarrow> NaN)"

definition maxlen_check :: "'w RuleItem \<Rightarrow> jsval \<Rightarrow> string \<Rightarrow> (jserr + bool) \<times> event list" where
  "maxlen_check rule v field =
     (if truthy (maxlength rule) then
        (if isInteger (maxlength rule) \<and> num_gt (as_number (maxlength rule)) (Fin 0) then
           (case length_of v of
              Inl e \<Rightarrow> (Inl e, [])
            | Inr l \<Rightarrow> (Inr (num_le l (as_number (maxlength rule))), []))
         else (Inr True, [Warned field ChkMaxlen]))
      else (Inr True, []))"

definition minlen_check :: "'w RuleItem \<Rightarrow> jsval \<Rightarrow> string \<Rightarrow> (jserr + bool) \<times> event list" where
  "minlen_check rule v field =
     (if truthy (minlength rule) then
        (if isInteger (minlength rule) \<and> num_gt (as_number (minlength rule)) (Fin 0) then
           (case length_of v of
              Inl e \<Rightarrow> (Inl e, [])
            | Inr l \<Rightarrow> (Inr (num_le (as_number (minlength rule)) l), []))
         else (Inr True, [Warned field ChkMinlen]))
      else (Inr True, []))"

definition enum_check :: "'w RuleItem \<Rightarrow> jsval \<Rightarrow> string \<Rightarrow> (jserr + bool) \<times> event list" where
  "enum_check rule v field =
     (if truthy (enum rule) then
        (if isArray (enum rule) then (oneOf v (enum rule), [])
         else (Inr True, [Warned field ChkEnum]))
      else (Inr True, []))"

text \<open>
  The message the \<open>catch\<close> block of \<open>_customValidate\<close> takes from what was thrown or
  rejected. validator-ts.ts: the payload when it is a string, \<open>err.message\<close> when its
  type is \<open>'object'\<close>, the empty string otherwise. validator-2.0.0.js: \<open>err.message\<close>
  when its type is \<open>'object'\<close>, the payload itself otherwise. \<open>null\<close> has type \<open>'object'\<close>
  and no properties to read.
\<close>

definition caught_message :: "jsval \<Rightarrow> jserr + jsval" where
  "caught_message err =
     (let errMsg = (if typeof err = TString then err else JStr [])
      in if typeof err = TObject then get_prop err ''message'' else Inr errMsg)"

definition caught_message_v2 :: "jsval \<Rightarrow> jserr + jsval" where
  "caught_message_v2 err =
     (if typeof err = TObject then get_prop err ''message'' else Inr err)"

definition caught :: "(jsval \<Rightarrow> jserr + jsval) \<Rightarrow> jsval \<Rightarrow> awaited" where
  "caught msg_of err = (case msg_of err of Inl e \<Rightarrow> Threw e | Inr m \<Rightarrow> Returned (RFail m))"

definition custom_check ::
  "(jsval \<Rightarrow> jserr + jsval) \<Rightarrow> 'w RuleItem \<Rightarrow> jsval \<Rightarrow> string \<Rightarrow> 'w
     \<Rightarrow> awaited \<times> 'w \<times> event list" where
  "custom_check msg_of rule v field w =
     (case validator rule of
        Function f \<Rightarrow>
          (case f v w of
             (Returns validRes, w') \<Rightarrow> (Returned (RBool (truthy validRes)), w', [Invoked v])
           | (ReturnsPromise (Fulfils _), w') \<Rightarrow> (Returned (RBool True), w', [Invoked v])
           | (ReturnsPromise (Rejects err), w') \<Rightarrow> (caught msg_of err, w', [Invoked v])
           | (ReturnsPromise NeverSettles, w') \<Rightarrow> (Unsettled, w', [Invoked v])
           | (Throws err, w') \<Rightarrow> (caught msg_of err, w', [Invoked v]))
      | NotFunction x \<Rightarrow>
          if truthy x then (Returned (RBool True), w, [Warned field ChkCustom])
          else (Returned (RBool True), w, []))"

text \<open>A synchronous check, awaited.\<close>

definition sync :: "(jserr + bool) \<times> event list \<Rightarrow> 'w \<Rightarrow> awaited \<times> 'w \<times> event list" where
  "sync r w = (case r of (Inl e, evs) \<Rightarrow> (Threw e, w, evs) | (Inr b, evs) \<Rightarrow> (Returned (RBool b), w, evs))"

text \<open>validator-ts.ts: every check but the first starts with
  \<open>if(Validator.isEmpty(value)) return true;\<close>.\<close>

definition validateType :: "'w RuleItem \<Rightarrow> jsval \<Rightarrow> string \<Rightarrow> (jserr + bool) \<times> event list" where
  "validateType rule v field =
     (if isEmpty v then (Inr True, []) else type_check Validator_static rule v field)"

definition validatePattern :: "'w RuleItem \<Rightarrow> jsval \<Rightarrow> string \<Rightarrow> (jserr + bool) \<times> event list" where
  "validatePattern rule v field =
     (if isEmpty v then (Inr True, []) else pattern_check rule v field)"

definition validateMaxlen :: "'w RuleItem \<Rightarrow> jsval \<Rightarrow> string \<Rightarrow> (jserr + bool) \<times> event list" where
  "validateMaxlen rule v field =
     (if isEmpty v then (Inr True, []) else maxlen_check rule v field)"

definition validateMinlen :: "'w RuleItem \<Rightarrow> jsval \<Rightarrow> string \<Rightarrow> (jserr + bool) \<times> event list" where
  "validateMinlen rule v field =
     (if isEmpty v then (Inr True, []) else minlen_check rule v field)"

definition validateEnum :: "'w RuleItem \<Rightarrow> jsval \<Rightarrow> string \<Rightarrow> (jserr + bool) \<times> event list" where
  "validateEnum rule v field =
     (if isEmpty v then (Inr True, []) else enum_check rule v field)"

definition customValidate ::
  "'w RuleItem \<Rightarrow> jsval \<Rightarrow> string \<Rightarrow> 'w \<Rightarrow> awaited \<times> 'w \<times> event list" where
  "customValidate rule v field w =
     (if isEmpty v then (Returned (RBool True), w, [])
      else custom_check caught_message rule v field w)"

text \<open>validator-2.0.0.js: the checks have no such guard.\<close>

definition validateType_v2 :: "'w RuleItem \<Rightarrow> jsval \<Rightarrow> string \<Rightarrow> (jserr + bool) \<times> event list" where
  "validateType_v2 rule v field = type_check Validator_static_v2 rule v field"

definition validatePattern_v2 :: "'w RuleItem \<Rightarrow> jsval \<Rightarrow> string \<Rightarrow> (jserr + bool) \<times> event list" where
  "validatePattern_v2 rule v field = pattern_check rule v field"

definition validateMaxlen_v2 :: "'w RuleItem \<Rightarrow> jsval \<Rightarrow> string \<Rightarrow> (jserr + bool) \<times> event list" where
  "validateMaxlen_v2 rule v field = maxlen_check rule v field"

definition validateMinlen_v2 :: "'w RuleItem \<Rightarrow> jsval \<Rightarrow> string \<Rightarrow> (jserr + bool) \<times> event list" where
  "validateMinlen_v2 rule v field = minlen_check rule v field"

definition validateEnum_v2 :: "'w RuleItem \<Rightarrow> jsval \<Rightarrow> string \<Rightarrow> (jserr + bool) \<times> event list" where
  "validateEnum_v2 rule v field = enum_check rule v field"

definition customValidate_v2 ::
  "'w RuleItem \<Rightarrow> jsval \<Rightarrow> string \<Rightarrow> 'w \<Rightarrow> awaited \<times> 'w \<times> event list" where
  "customValidate_v2 rule v field w = custom_check caught_message_v2 rule v field w"


section \<open>\<open>validateField\<close>\<close>

text \<open>The chain of validator-ts.ts and the chain of validator-2.0.0.js, which calls the
  custom validator fourth.\<close>

definition chain :: "check list" where
  "chain = [ChkRequired, ChkType, ChkPattern, ChkMaxlen, ChkMinlen, ChkEnum, ChkCustom]"

definition chain_v2 :: "check list" where
  "chain_v2 = [ChkRequired, ChkType, ChkPattern, ChkCustom, ChkMaxlen, ChkMinlen, ChkEnum]"

definition chain_fn ::
  "check \<Rightarrow> 'w RuleItem \<Rightarrow> jsval \<Rightarrow> string \<Rightarrow> 'w \<Rightarrow> awaited \<times> 'w \<times> event list" where
  "chain_fn c rule v field w =
     (case c of
        ChkRequired \<Rightarrow> sync (Inr (validateRequired rule v), []) w
      | ChkType \<Rightarrow> sync (validateType rule v field) w
      | ChkPattern \<Rightarrow> sync (validatePattern rule v field) w
      | ChkMaxlen \<Rightarrow> sync (validateMaxlen rule v field) w
      | ChkMinlen \<Rightarrow> sync (validateMinlen rule v field) w
      | ChkEnum \<Rightarrow> sync (validateEnum rule v field) w
      | ChkCustom \<Rightarrow> customValidate rule v field w)"

definition chain_fn_v2 ::
  "check \<Rightarrow> 'w RuleItem \<Rightarrow> jsval \<Rightarrow> string \<Rightarrow> 'w \<Rightarrow> awaited \<times> 'w \<times> event list" where
  "chain_fn_v2 c rule v field w =
     (case c of
        ChkRequired \<Rightarrow> sync (Inr (validateRequired rule v), []) w
      | ChkType \<Rightarrow> sync (validateType_v2 rule v field) w
      | ChkPattern \<Rightarrow> sync (validatePattern_v2 rule v field) w
      | ChkMaxlen \<Rightarrow> sync (validateMaxlen_v2 rule v field) w
      | ChkMinlen \<Rightarrow> sync (validateMinlen_v2 rule v field) w
      | ChkEnum \<Rightarrow> sync (validateEnum_v2 rule v field) w
      | ChkCustom \<Rightarrow> customValidate_v2 rule v field w)"

text \<open>\<open>_transform[field] || (value => value)\<close>. The read throws when \<open>_transform\<close> is
  \<open>undefined\<close> or \<open>null\<close>.\<close>

definition identity :: "'w entry" where
  "identity = Fun (\<lambda>value w. (value, w))"

definition or_identity :: "jsval \<Rightarrow> 'w entry" where
  "or_identity x = (if truthy x then Value x else identity)"

definition lookup_transform :: "'w transform_opt \<Rightarrow> string \<Rightarrow> jserr + 'w entry" where
  "lookup_transform t field =
     (case t of
        TransformValue x \<Rightarrow>
          (case get_prop x field of Inl e \<Rightarrow> Inl e | Inr y \<Rightarrow> Inr (or_identity y))
      | TransformObject ps \<Rightarrow>
          (case map_of ps field of
             None \<Rightarrow> Inr identity
           | Some (Value y) \<Rightarrow> Inr (or_identity y)
           | Some (Fun f) \<Rightarrow> Inr (Fun f)))"

text \<open>\<open>currentTransform(form[field])\<close>; calling what is not a function throws.\<close>

definition call_transform ::
  "'w entry \<Rightarrow> jsval \<Rightarrow> 'w \<Rightarrow> (jserr + jsval) \<times> 'w \<times> event list" where
  "call_transform tf raw w =
     (case tf of
        Fun f \<Rightarrow> (case f raw w of (v, w') \<Rightarrow> (Inr v, w', [Transformed raw]))
      | Value _ \<Rightarrow> (Inl TypeError, w, []))"

text \<open>
  The inner loop, \<open>for (const validator of chain)\<close>: each step reads \<open>form[field]\<close>,
  calls the transform on it, calls the chain function on the result and awaits what it
  returns. The loop is left at the first result that does not pass. An exception, or
  an await that never returns, inside the \<open>async\<close> executor leaves the promise of
  \<open>validateField\<close> without a settlement: nothing calls \<open>resolve\<close> or \<open>reject\<close>.
\<close>

datatype chain_result = ChainPassed | ChainFailed stepval | ChainStuck

definition passes :: "stepval \<Rightarrow> bool" where
  "passes res = (case res of RBool b \<Rightarrow> b | RFail _ \<Rightarrow> False)"

fun run_chain ::
  "(check \<Rightarrow> 'w RuleItem \<Rightarrow> jsval \<Rightarrow> string \<Rightarrow> 'w \<Rightarrow> awaited \<times> 'w \<times> event list)
     \<Rightarrow> 'w entry \<Rightarrow> string \<Rightarrow> jsval \<Rightarrow> check list \<Rightarrow> 'w RuleItem \<Rightarrow> 'w
     \<Rightarrow> chain_result \<times> 'w \<times> event list" where
  "run_chain impl tf field form [] rule w = (ChainPassed, w, [])"
| "run_chain impl tf field form (c # cs) rule w =
     (case get_prop form field of
        Inl e \<Rightarrow> (ChainStuck, w, [])
      | Inr raw \<Rightarrow>
          (case call_transform tf raw w of
             (Inl e, w1, evs1) \<Rightarrow> (ChainStuck, w1, evs1)
           | (Inr v, w1, evs1) \<Rightarrow>
               (case impl c rule v field w1 of
                  (Returned res, w2, evs2) \<Rightarrow>
                    if passes res then
                      (case run_chain impl tf field form cs rule w2 of
                         (r, w3, evs3) \<Rightarrow>
                           (r, w3, evs1 @ evs2 @ Checked c (Returned res) # evs3))
                    else (ChainFailed res, w2, evs1 @ evs2 @ [Checked c (Returned res)])
                | (a, w2, evs2) \<Rightarrow> (ChainStuck, w2, evs1 @ evs2 @ [Checked c a]))))"

text \<open>
  What a promise comes to, and what \<open>validateField\<close> rejects with: the failing rule with
  its message resolved, alone or (\<open>fieldWrap\<close>) together with the field name.
\<close>

datatype 'r settled = Resolved | Rejected 'r | Pending

datatype 'w reason = Bare "'w RuleItem" | Wrapped string "'w RuleItem"

text \<open>\<open>errMsg || rule.message\<close>: \<open>errMsg\<close> is the message of a result object, and empty
  (validator-ts.ts) or \<open>undefined\<close> (validator-2.0.0.js) for a boolean result.\<close>

definition resolve_message :: "stepval \<Rightarrow> 'w RuleItem \<Rightarrow> 'w msg" where
  "resolve_message res rule =
     (case res of
        RFail errMsg \<Rightarrow> if truthy errMsg then Msg errMsg else message rule
      | RBool _ \<Rightarrow> message rule)"

text \<open>validator-ts.ts on a failed check: a message that is a function is called,
  otherwise the hook, when there is one, is called with the message; then the promise
  is rejected.\<close>

definition report ::
  "'w Validator \<Rightarrow> string \<Rightarrow> bool \<Rightarrow> 'w RuleItem \<Rightarrow> stepval \<Rightarrow> 'w
     \<Rightarrow> 'w reason \<times> 'w \<times> event list" where
  "report V field fieldWrap rule res w =
     (let msg = resolve_message res rule;
          finalRule = rule\<lparr> message := msg \<rparr>;
          reason = (if fieldWrap then Wrapped field finalRule else Bare finalRule)
      in case msg of
           MsgFunction g \<Rightarrow> (reason, g w, [MessageCalled])
         | Msg m \<Rightarrow>
             (case v_messageHook V of
                Some hook \<Rightarrow> (reason, hook m w, [Hooked m])
              | None \<Rightarrow> (reason, w, [])))"

text \<open>validator-2.0.0.js rejects with \<open>{field, rule: {...rule, message}}\<close> at once.\<close>

definition report_v2 ::
  "string \<Rightarrow> 'w RuleItem \<Rightarrow> stepval \<Rightarrow> 'w \<Rightarrow> 'w reason \<times> 'w \<times> event list" where
  "report_v2 field rule res w =
     (Wrapped field (rule\<lparr> message := resolve_message res rule \<rparr>), w, [])"

text \<open>The outer loop, \<open>for (const rule of currentRules)\<close>. Every event is recorded with
  the number of the rule (counted from 0) during which it happened.\<close>

fun run_rules ::
  "('w RuleItem \<Rightarrow> 'w \<Rightarrow> chain_result \<times> 'w \<times> event list)
     \<Rightarrow> ('w RuleItem \<Rightarrow> stepval \<Rightarrow> 'w \<Rightarrow> 'w reason \<times> 'w \<times> event list)
     \<Rightarrow> nat \<Rightarrow> 'w RuleItem list \<Rightarrow> 'w
     \<Rightarrow> 'w reason settled \<times> 'w \<times> (nat \<times> event) list" where
  "run_rules run rep i [] w = (Resolved, w, [])"
| "run_rules run rep i (rule # rest) w =
     (case run rule w of
        (ChainPassed, w1, evs1) \<Rightarrow>
          (case run_rules run rep (Suc i) rest w1 of
             (r, w2, evs2) \<Rightarrow> (r, w2, map (Pair i) evs1 @ evs2))
      | (ChainFailed res, w1, evs1) \<Rightarrow>
          (case rep rule res w1 of
             (reason, w2, evs2) \<Rightarrow> (Rejected reason, w2, map (Pair i) (evs1 @ evs2)))
      | (ChainStuck, w1, evs1) \<Rightarrow> (Pending, w1, map (Pair i) evs1))"

text \<open>validator-ts.ts. \<open>Inl\<close> is an exception thrown by the call itself, before any
  promise exists. \<open>const { _rules, _transform = {} } = this\<close> replaces an \<open>undefined\<close>
  transform (no other value) by the empty object.\<close>

definition or_empty_object :: "'w transform_opt \<Rightarrow> 'w transform_opt" where
  "or_empty_object t = (case t of TransformValue JUndefined \<Rightarrow> TransformObject [] | _ \<Rightarrow> t)"

definition validateField ::
  "'w Validator \<Rightarrow> string \<Rightarrow> jsval \<Rightarrow> bool \<Rightarrow> 'w
     \<Rightarrow> (jserr + 'w reason settled) \<times> 'w \<times> (nat \<times> event) list" where
  "validateField V field form fieldWrap w =
     (if \<not> isObject form then (Inl (Error ''Form parameter is not an object''), w, [])
      else case map_of (v_rules V) field of
             None \<Rightarrow> (Inr Resolved, w, [])
           | Some currentRules \<Rightarrow>
               (case lookup_transform (or_empty_object (v_transform V)) field of
                  Inl e \<Rightarrow> (Inr Pending, w, [])
                | Inr currentTransform \<Rightarrow>
                    (case run_rules (run_chain chain_fn currentTransform field form chain)
                            (report V field fieldWrap) 0 currentRules w of
                       (r, w', evs) \<Rightarrow> (Inr r, w', evs))))"

text \<open>validator-2.0.0.js.\<close>

definition validateField_v2 ::
  "'w Validator \<Rightarrow> string \<Rightarrow> jsval \<Rightarrow> 'w
     \<Rightarrow> (jserr + 'w reason settled) \<times> 'w \<times> (nat \<times> event) list" where
  "validateField_v2 V field form w =
     (if \<not> isObject form then (Inl (Error ''Form parameter is not an object''), w, [])
      else case map_of (v_rules V) field of
             None \<Rightarrow> (Inr Resolved, w, [])
           | Some currentRules \<Rightarrow>
               (case lookup_transform (v_transform V) field of
                  Inl e \<Rightarrow> (Inr Pending, w, [])
                | Inr currentTransform \<Rightarrow>
                    (case run_rules (run_chain chain_fn_v2 currentTransform field form chain_v2)
                            (report_v2 field) 0 currentRules w of
                       (r, w', evs) \<Rightarrow> (Inr r, w', evs))))"

section \<open>\<open>validate\<close>\<close>

text \<open>
  \<open>Object.keys(_rules).map(field => this.validateField(field, form, true))\<close> starts one
  task per configured field; \<open>Promise.allSettled\<close> waits for all of them, and has no
  result while one of them has none. The rejected ones are then written into
  \<open>errorsMap\<close> under their field names.

  The tasks run interleaved. Each is evaluated here by itself, from the state \<open>w\<close> the
  call finds: the callbacks of one field are taken not to disturb those of another.
\<close>

definition errorsMap :: "'w reason list \<Rightarrow> (string \<rightharpoonup> 'w RuleItem)" where
  "errorsMap errors =
     foldl (\<lambda>m err. case err of Wrapped field rule \<Rightarrow> m(field \<mapsto> rule) | Bare _ \<Rightarrow> m)
       Map.empty errors"

definition is_pending :: "'r settled \<Rightarrow> bool" where
  "is_pending t = (case t of Pending \<Rightarrow> True | _ \<Rightarrow> False)"

definition join_tasks :: "'w reason settled list \<Rightarrow> (string \<rightharpoonup> 'w RuleItem) settled" where
  "join_tasks tasks =
     (if list_ex is_pending tasks then Pending
      else (let errors = [r. Rejected r \<leftarrow> tasks]
            in if length errors > 0 then Rejected (errorsMap errors) else Resolved))"

fun first_thrown :: "(jserr + 'a) list \<Rightarrow> jserr option" where
  "first_thrown [] = None"
| "first_thrown (Inl e # ts) = Some e"
| "first_thrown (Inr _ # ts) = first_thrown ts"

definition validate ::
  "'w Validator \<Rightarrow> jsval \<Rightarrow> 'w \<Rightarrow> jserr + (string \<rightharpoonup> 'w RuleItem) settled" where
  "validate V form w =
     (if \<not> isObject form then Inl (Error ''Form parameter is not an object'')
      else (let tasks = map (\<lambda>field. fst (validateField V field form True w))
                          (map fst (v_rules V))
            in case first_thrown tasks of
                 Some e \<Rightarrow> Inl e
               | None \<Rightarrow> Inr (join_tasks [t. Inr t \<leftarrow> tasks])))"

definition validate_v2 ::
  "'w Validator \<Rightarrow> jsval \<Rightarrow> 'w \<Rightarrow> jserr + (string \<rightharpoonup> 'w RuleItem) settled" where
  "validate_v2 V form w =
     (if \<not> isObject form then Inl (Error ''Form parameter is not an object'')
      else (let tasks = map (\<lambda>field. fst (validateField_v2 V field form w))
                          (map fst (v_rules V))
            in case first_thrown tasks of
                 Some e \<Rightarrow> Inl e
               | None \<Rightarrow> Inr (join_tasks [t. Inr t \<leftarrow> tasks])))"


section \<open>Reading a trace\<close>

text \<open>
  The events recorded during rule number \<open>i\<close>; the calls of chain functions in a list of
  events, each with what came back, and whether that lets the loop go on; the checks
  called for rule number \<open>i\<close>, in the order of the calls; the arguments of the calls of
  the transform and of the custom validators.
\<close>

definition events_of :: "nat \<Rightarrow> (nat \<times> event) list \<Rightarrow> event list" where
  "events_of i evs = map snd (filter (\<lambda>p. fst p = i) evs)"

definition steps :: "event list \<Rightarrow> (check \<times> awaited) list" where
  "steps evs = [(c, a). Checked c a \<leftarrow> evs]"




definition transform_calls :: "event list \<Rightarrow> jsval list" where
  "transform_calls evs = [x. Transformed x \<leftarrow> evs]"

definition validator_calls :: "event list \<Rightarrow> jsval list" where
  "validator_calls evs = [x. Invoked x \<leftarrow> evs]"

section \<open>The transform applied once\<close>






section \<open>Example configurations\<close>

text \<open>\<open>{pwd: {maxlength: 3, validator: v => true, message: 'too long'}}\<close> with the
  transform \<open>{}\<close>, and the forms \<open>{pwd: 'xxxx'}\<close> and \<open>{pwd: 'xx'}\<close>.\<close>

definition pwd_rule :: "unit RuleItem" where
  "pwd_rule = no_rule\<lparr> maxlength := JNum (Fin 3),
                        validator := Function (\<lambda>v w. (Returns (JBool True), w)),
                        message := Msg (JStr ''too long'') \<rparr>"

definition pwd_validator :: "unit Validator" where
  "pwd_validator = \<lparr> v_rules = [(''pwd'', [pwd_rule])], v_transform = TransformObject [],
                     v_messageHook = None \<rparr>"

definition long_form :: jsval where
  "long_form = JObj 1 [(''pwd'', JStr ''xxxx'')]"

definition short_form :: jsval where
  "short_form = JObj 2 [(''pwd'', JStr ''xx'')]"

text \<open>\<open>{name: {required: true, message: 'required'}}\<close> without a transform, as a
  configuration and as the instance built from it; the forms \<open>{name: ''}\<close> and
  \<open>{name: 'li'}\<close>; a custom validator that rejects with \<open>null\<close>; and the validator
  \<open>v => v === 'secret' ? true : Promise.reject('wrong')\<close>.\<close>

definition name_rule :: "unit RuleItem" where
  "name_rule = no_rule\<lparr> required := JBool True, message := Msg (JStr ''required'') \<rparr>"

definition name_validator :: "unit Validator" where
  "name_validator = \<lparr> v_rules = [(''name'', [name_rule])], v_transform = TransformValue JUndefined,
                      v_messageHook = None \<rparr>"

definition empty_form :: jsval where
  "empty_form = JObj 3 [(''name'', JStr [])]"

definition filled_form :: jsval where
  "filled_form = JObj 4 [(''name'', JStr ''li'')]"

definition null_rule :: "unit RuleItem" where
  "null_rule = no_rule\<lparr> validator := Function (\<lambda>v w. (ReturnsPromise (Rejects JNull), w)),
                         message := Msg (JStr ''bad password'') \<rparr>"

definition secret_rule :: "unit RuleItem" where
  "secret_rule = no_rule\<lparr> validator := Function (\<lambda>v w.
      (if strict_eq v (JStr ''secret'') then Returns (JBool True)
       else ReturnsPromise (Rejects (JStr ''wrong'')), w)) \<rparr>"

definition name_config :: "unit Config" where
  "name_config = \<lparr> rules = [(''name'', One name_rule)], transform = TransformValue JUndefined,
                   messageHook = None \<rparr>"

definition empty_config :: "unit Config" where
  "empty_config = \<lparr> rules = [], transform = TransformValue JUndefined, messageHook = None \<rparr>"

definition no_fields :: "unit Validator" where
  "no_fields = \<lparr> v_rules = [], v_transform = TransformValue JUndefined, v_messageHook = None \<rparr>"

text \<open>Two fields that both fail on \<open>{name: '', pwd: 'xxxx'}\<close>, and two fields of which
  one fails and the other has a validator whose promise never settles.\<close>

definition slow_rule :: "unit RuleItem" where
  "slow_rule = no_rule\<lparr> validator := Function (\<lambda>v w. (ReturnsPromise NeverSettles, w)) \<rparr>"

definition two_fields :: "unit Validator" where
  "two_fields = \<lparr> v_rules = [(''name'', [name_rule]), (''pwd'', [pwd_rule])],
                  v_transform = TransformObject [], v_messageHook = None \<rparr>"

definition one_hangs :: "unit Validator" where
  "one_hangs = \<lparr> v_rules = [(''name'', [name_rule]), (''pwd'', [slow_rule])],
                 v_transform = TransformObject [], v_messageHook = None \<rparr>"

definition both_bad :: jsval where
  "both_bad = JObj 5 [(''name'', JStr []), (''pwd'', JStr ''xxxx'')]"

text \<open>A transform that does not return the same value twice: \<open>'hello'\<close> at its first
  call and \<open>'hi'\<close> ever after (the state of the callbacks is the number of calls so far),
  with the rule \<open>{minlength: 5}\<close>.\<close>

definition changing :: "jsval \<Rightarrow> nat \<Rightarrow> jsval \<times> nat" where
  "changing v n = (if n = 0 then JStr ''hello'' else JStr ''hi'', Suc n)"

definition changing_validator :: "nat Validator" where
  "changing_validator = \<lparr> v_rules = [(''name'', [no_rule\<lparr> minlength := JNum (Fin 5) \<rparr>])],
                          v_transform = TransformObject [(''name'', Fun changing)],
                          v_messageHook = None \<rparr>"

section \<open>Unfolding the model\<close>

lemmas predicate_defs = Validator_static_def Validator_static_v2_def types_def
  capitalize_def toUpperCase_def oneOf_def isFloat_def isFloat_v2_def
  isDate_def isObject_def isArray_def isRegexp_def isFunction_def isBoolean_def isNumber_def
  isString_def isEmpty_def

lemmas check_defs = chain_fn_def chain_fn_v2_def
  customValidate_def customValidate_v2_def validateEnum_def validateEnum_v2_def
  validateMinlen_def validateMinlen_v2_def validateMaxlen_def validateMaxlen_v2_def
  validatePattern_def validatePattern_v2_def validateType_def validateType_v2_def
  sync_def custom_check_def caught_def caught_message_def caught_message_v2_def
  enum_check_def minlen_check_def maxlen_check_def as_number_def length_of_def pattern_check_def
  type_check_def validateRequired_def

lemmas driver_defs = validate_def validate_v2_def validateField_def validateField_v2_def
  join_tasks_def errorsMap_def is_pending_def or_empty_object_def report_def report_v2_def
  resolve_message_def passes_def call_transform_def lookup_transform_def or_identity_def
  identity_def chain_def chain_v2_def new_Validator_def new_Validator_v2_def normalise_def
  transform_rejected_def no_rule_def

lemmas example_defs = pwd_rule_def pwd_validator_def long_form_def short_form_def
  name_rule_def name_validator_def empty_form_def filled_form_def null_rule_def secret_rule_def
  name_config_def empty_config_def no_fields_def
  slow_rule_def two_fields_def one_hangs_def both_bad_def changing_def changing_validator_def


section \<open>The shape of a trace\<close>

lemma steps_simps [simp]:
  "steps [] = []"
  "steps (xs @ ys) = steps xs @ steps ys"
  "steps (Checked c a # xs) = (c, a) # steps xs"
  "steps (Transformed x # xs) = steps xs"
  "steps (Invoked x # xs) = steps xs"
  "steps (Warned f c # xs) = steps xs"
  "steps (MessageCalled # xs) = steps xs"
  "steps (Hooked x # xs) = steps xs"
  by (simp_all add: steps_def)

lemma transform_calls_simps [simp]:
  "transform_calls [] = []"
  "transform_calls (xs @ ys) = transform_calls xs @ transform_calls ys"
  "transform_calls (Checked c a # xs) = transform_calls xs"
  "transform_calls (Transformed x # xs) = x # transform_calls xs"
  "transform_calls (Invoked x # xs) = transform_calls xs"
  "transform_calls (Warned f c # xs) = transform_calls xs"
  "transform_calls (MessageCalled # xs) = transform_calls xs"
  "transform_calls (Hooked x # xs) = transform_calls xs"
  by (simp_all add: transform_calls_def)

lemma validator_calls_simps [simp]:
  "validator_calls [] = []"
  "validator_calls (xs @ ys) = validator_calls xs @ validator_calls ys"
  "validator_calls (Checked c a # xs) = validator_calls xs"
  "validator_calls (Transformed x # xs) = validator_calls xs"
  "validator_calls (Invoked x # xs) = x # validator_calls xs"
  "validator_calls (Warned f c # xs) = validator_calls xs"
  "validator_calls (MessageCalled # xs) = validator_calls xs"
  "validator_calls (Hooked x # xs) = validator_calls xs"
  by (simp_all add: validator_calls_def)

lemma events_of_simps [simp]:
  "events_of j [] = []"
  "events_of j (xs @ ys) = events_of j xs @ events_of j ys"
  "events_of j (map (Pair i) es) = (if j = i then es else [])"
  by (simp_all add: events_of_def filter_map comp_def)

text \<open>What one call of a chain function records.\<close>

lemma sync_events:
  "sync (r, evs) w = (a, w', evs') \<Longrightarrow> evs' = evs \<and> w' = w"
  by (auto simp: sync_def split: sum.splits)









lemma report_events:
  assumes "report V field fieldWrap rule res w = (reason, w', evs)"
  shows "steps evs = [] \<and> transform_calls evs = [] \<and> validator_calls evs = [] \<and>
         reason = (if fieldWrap then Wrapped field else Bare)
                    (rule\<lparr> message := resolve_message res rule \<rparr>)"
  using assms by (auto simp: report_def Let_def split: msg.splits option.splits)

lemma report_v2_events:
  assumes "report_v2 field rule res w = (reason, w', evs)"
  shows "steps evs = [] \<and> transform_calls evs = [] \<and> validator_calls evs = [] \<and> w' = w \<and>
         reason = Wrapped field (rule\<lparr> message := resolve_message res rule \<rparr>)"
  using assms by (auto simp: report_v2_def)






















section \<open>Numbers: which values \<open>isInteger\<close> accepts\<close>

declare lead_digit.simps [simp del] first_sig.simps [simp del]

lemma lead_digit_le: "lead_digit n \<le> 9"
proof (induction n rule: lead_digit.induct)
  case (1 n)
  then show ?case by (subst lead_digit.simps) simp
qed

lemma trunc_eq_iff: "sgn q * rat_of_int \<lfloor>\<bar>q\<bar>\<rfloor> = q \<longleftrightarrow> q \<in> \<int>"
proof
  assume "sgn q * rat_of_int \<lfloor>\<bar>q\<bar>\<rfloor> = q"
  moreover have "sgn q * rat_of_int \<lfloor>\<bar>q\<bar>\<rfloor> \<in> \<int>"
    by (cases "q < 0"; cases "q = 0") (simp_all add: sgn_if)
  ultimately show "q \<in> \<int>" by simp
next
  assume "q \<in> \<int>"
  then obtain n where "q = rat_of_int n" by (auto elim: Ints_cases)
  then show "sgn q * rat_of_int \<lfloor>\<bar>q\<bar>\<rfloor> = q"
    by (cases "n < 0"; cases "n = 0") (simp_all add: sgn_if abs_if)
qed

lemma sgn_nat_eq: "q \<noteq> 0 \<Longrightarrow> sgn q * rat_of_nat d = q \<Longrightarrow> \<bar>q\<bar> = rat_of_nat d"
  by (cases "q < 0") (auto simp: sgn_if)

lemma parseInt10_Fin:
  "parseInt10 (Fin q) = Fin q \<longleftrightarrow> q \<in> \<int> \<and> \<bar>q\<bar> < 10 ^ 21"
proof -
  consider (pos) "q = 0 \<or> (1 / 10 ^ 6 \<le> \<bar>q\<bar> \<and> \<bar>q\<bar> < 10 ^ 21)"
    | (big) "10 ^ 21 \<le> \<bar>q\<bar>"
    | (small) "q \<noteq> 0" "\<bar>q\<bar> < 1 / 10 ^ 6"
    by linarith
  then show ?thesis
  proof cases
    case pos
    then have "parseInt10 (Fin q) = Fin (sgn q * rat_of_int \<lfloor>\<bar>q\<bar>\<rfloor>)"
      by (simp add: parseInt10_def)
    moreover from pos have "\<bar>q\<bar> < 10 ^ 21" by auto
    ultimately show ?thesis by (simp add: trunc_eq_iff)
  next
    case big
    then have p: "parseInt10 (Fin q) = Fin (sgn q * rat_of_nat (lead_digit (nat \<lfloor>\<bar>q\<bar>\<rfloor>)))"
      by (simp add: parseInt10_def)
    have "parseInt10 (Fin q) \<noteq> Fin q"
    proof
      assume "parseInt10 (Fin q) = Fin q"
      with p have "sgn q * rat_of_nat (lead_digit (nat \<lfloor>\<bar>q\<bar>\<rfloor>)) = q" by simp
      moreover from big have "q \<noteq> 0" by auto
      ultimately have "\<bar>q\<bar> = rat_of_nat (lead_digit (nat \<lfloor>\<bar>q\<bar>\<rfloor>))"
        by (rule sgn_nat_eq [rotated])
      moreover have "rat_of_nat (lead_digit (nat \<lfloor>\<bar>q\<bar>\<rfloor>)) \<le> 9"
        using lead_digit_le [of "nat \<lfloor>\<bar>q\<bar>\<rfloor>"] by (metis of_nat_le_iff of_nat_numeral)
      ultimately show False using big by simp
    qed
    with big show ?thesis by simp
  next
    case small
    obtain a b where ab: "quotient_of \<bar>q\<bar> = (a, b)" by (cases "quotient_of \<bar>q\<bar>")
    from small have p: "parseInt10 (Fin q) = Fin (sgn q * rat_of_nat (first_sig (nat a) (nat b)))"
      by (simp add: parseInt10_def ab)
    have "parseInt10 (Fin q) \<noteq> Fin q"
    proof
      assume "parseInt10 (Fin q) = Fin q"
      with p have "sgn q * rat_of_nat (first_sig (nat a) (nat b)) = q" by simp
      with small(1) have e: "\<bar>q\<bar> = rat_of_nat (first_sig (nat a) (nat b))"
        by (rule sgn_nat_eq)
      with small have "rat_of_nat (first_sig (nat a) (nat b)) < 1" by simp
      then have "first_sig (nat a) (nat b) = 0" by simp
      with e small show False by simp
    qed
    moreover have "\<not> (q \<in> \<int> \<and> \<bar>q\<bar> < 10 ^ 21)"
    proof
      assume "q \<in> \<int> \<and> \<bar>q\<bar> < 10 ^ 21"
      then have "\<bar>q\<bar> \<in> \<int>" by simp
      then obtain n where n: "\<bar>q\<bar> = rat_of_int n" by (auto elim: Ints_cases)
      from small(1) have "0 < \<bar>q\<bar>" by simp
      with n have "0 < n" by simp
      moreover from small(2) have "\<bar>q\<bar> < 1" by simp
      with n have "n < 1" by simp
      ultimately show False by simp
    qed
    ultimately show ?thesis by simp
  qed
qed

lemma isInteger_Fin: "isInteger (JNum (Fin q)) \<longleftrightarrow> q \<in> \<int> \<and> \<bar>q\<bar> < 10 ^ 21"
proof -
  have "isInteger (JNum (Fin q)) \<longleftrightarrow> parseInt10 (Fin q) = Fin q"
    by (auto simp: isInteger_def isNumber_def)
  then show ?thesis by (simp only: parseInt10_Fin)
qed

lemma isInteger_iff: "isInteger v \<longleftrightarrow> (\<exists>q. v = JNum (Fin q) \<and> q \<in> \<int> \<and> \<bar>q\<bar> < 10 ^ 21)"
proof (cases v)
  case (JNum x)
  then show ?thesis
    by (cases x) (simp_all add: isInteger_Fin, simp_all add: isInteger_def isNumber_def parseInt10_def)
qed (simp_all add: isInteger_def isNumber_def)


text \<open>
  \<^bold>\<open>C8\<close>. The claim: \<open>isInteger\<close> and \<open>isFloat\<close> return a boolean for every input without
  raising, \<open>isFloat(v)\<close> being true iff \<open>v\<close> is a number that is not an integer. In
  validator-1.0.0.js and validator-2.0.0.js \<open>isFloat\<close> calls the misspelt
  \<open>Validator.isTnteger\<close>: on \<open>1.5\<close>, as on every number, it throws a \<open>TypeError\<close>, where
  the \<open>isFloat\<close> of validator-ts.ts answers \<open>true\<close>.
\<close>

theorem isFloat_v2_raises:
  "isFloat_v2 (JNum (Fin (3 / 2))) = Inl TypeError \<and> isFloat (JNum (Fin (3 / 2))) = Inr True"
  by (simp add: isFloat_v2_def isFloat_def isNumber_def isInteger_Fin)

section \<open>The guard on the form\<close>

lemma isObject_iff: "isObject v \<longleftrightarrow> v = JNull \<or> (\<exists>r ps. v = JObj r ps)"
  by (cases v) (simp_all add: isObject_def isArray_def)

lemma guard_throws:
  "\<not> isObject form \<Longrightarrow>
     validate V form w = Inl (Error ''Form parameter is not an object'') \<and>
     validate_v2 V form w = Inl (Error ''Form parameter is not an object'') \<and>
     validateField V field form fieldWrap w = (Inl (Error ''Form parameter is not an object''), w, []) \<and>
     validateField_v2 V field form w = (Inl (Error ''Form parameter is not an object''), w, [])"
  by (simp add: validate_def validate_v2_def validateField_def validateField_v2_def)

lemma first_thrown_None: "(\<forall>t \<in> set ts. \<exists>r. t = Inr r) \<Longrightarrow> first_thrown ts = None"
  by (induction ts rule: first_thrown.induct) auto

lemma validateField_object_Inr:
  "isObject form \<Longrightarrow> \<exists>r. fst (validateField V field form fieldWrap w) = Inr r"
  by (auto simp: validateField_def split: option.splits sum.splits prod.splits)

lemma validateField_v2_object_Inr:
  "isObject form \<Longrightarrow> \<exists>r. fst (validateField_v2 V field form w) = Inr r"
  by (auto simp: validateField_v2_def split: option.splits sum.splits prod.splits)

lemma validate_object:
  assumes "isObject form"
  shows "validate V form w =
    Inr (join_tasks [t. Inr t \<leftarrow> map (\<lambda>field. fst (validateField V field form True w))
                                    (map fst (v_rules V))])"
proof -
  let ?tasks = "map (\<lambda>field. fst (validateField V field form True w)) (map fst (v_rules V))"
  have "\<forall>t \<in> set ?tasks. \<exists>r. t = Inr r"
    using validateField_object_Inr [OF assms] by auto
  then have "first_thrown ?tasks = None" by (rule first_thrown_None)
  with assms show ?thesis by (simp add: validate_def)
qed

lemma validate_v2_object:
  assumes "isObject form"
  shows "validate_v2 V form w =
    Inr (join_tasks [t. Inr t \<leftarrow> map (\<lambda>field. fst (validateField_v2 V field form w))
                                    (map fst (v_rules V))])"
proof -
  let ?tasks = "map (\<lambda>field. fst (validateField_v2 V field form w)) (map fst (v_rules V))"
  have "\<forall>t \<in> set ?tasks. \<exists>r. t = Inr r"
    using validateField_v2_object_Inr [OF assms] by auto
  then have "first_thrown ?tasks = None" by (rule first_thrown_None)
  with assms show ?thesis by (simp add: validate_v2_def)
qed

text \<open>
  \<^bold>\<open>C5\<close>. The claim: for data that is not an object, \<open>null\<close> included, \<open>validate\<close> and
  \<open>validateField\<close> throw before returning a promise. \<open>isObject(null)\<close> is true, so \<open>null\<close>
  passes the guard: no call on \<open>null\<close> throws, each returns a promise, and with a rule
  configured for the field that promise never settles (reading \<open>form[field]\<close> throws
  inside the executor).
\<close>

theorem null_passes_the_guard:
  "isObject JNull \<and>
   (\<exists>r. validate V JNull w = Inr r) \<and>
   (\<exists>r. fst (validateField V field JNull fieldWrap w) = Inr r) \<and>
   validate \<lparr> v_rules = [(''name'', [no_rule\<lparr> required := JBool True \<rparr>])],
              v_transform = TransformValue JUndefined, v_messageHook = None \<rparr> JNull w
     = Inr Pending"
proof -
  have obj: "isObject JNull" by (simp add: isObject_def isArray_def)
  moreover from obj have "\<exists>r. validate V JNull w = Inr r"
    by (simp add: validate_object)
  moreover from obj have "\<exists>r. fst (validateField V field JNull fieldWrap w) = Inr r"
    by (rule validateField_object_Inr)
  moreover have "validate \<lparr> v_rules = [(''name'', [no_rule\<lparr> required := JBool True \<rparr>])],
        v_transform = TransformValue JUndefined, v_messageHook = None \<rparr> JNull w = Inr Pending"
    by (simp add: driver_defs predicate_defs)
  ultimately show ?thesis by blast
qed

section \<open>Empty values\<close>






text \<open>
  \<^bold>\<open>C3\<close>, as amended. In validator-ts.ts, on a value for which \<open>isEmpty\<close> holds every chain
  function other than the required check returns \<open>true\<close> at once: it calls no callback
  and writes no warning; the required check fails on it exactly when \<open>rule.required\<close> is
  set. (The claim names no file; the checks of validator-2.0.0.js have no such guard,
  see the counterexample.)
\<close>

theorem empty_value_skips_checks:
  assumes "isEmpty v"
  shows "(c \<noteq> ChkRequired \<longrightarrow> chain_fn c rule v field w = (Returned (RBool True), w, [])) \<and>
         chain_fn ChkRequired rule v field w =
           (Returned (RBool (\<not> truthy (required rule))), w, [])"
  using assms by (cases c) (simp_all add: check_defs)

theorem empty_value_skips_checks_witness:
  "isEmpty JNull \<and>
   chain_fn ChkType (no_rule\<lparr> type := JStr ''string'' \<rparr>) JNull ''f'' ()
     = (Returned (RBool True), (), [])"
proof -
  have e: "isEmpty JNull" by (simp add: isEmpty_def)
  from empty_value_skips_checks [OF e, of ChkType "no_rule\<lparr> type := JStr ''string'' \<rparr>" "''f''" "()"]
  show ?thesis using e by simp
qed

text \<open>The same call in validator-2.0.0.js: the type check of an optional string field
  fails on \<open>null\<close>, and the length check throws on it.\<close>

theorem empty_value_checked_v2:
  "isEmpty JNull \<and>
   chain_fn_v2 ChkType (no_rule\<lparr> type := JStr ''string'' \<rparr>) JNull ''f'' ()
     = (Returned (RBool False), (), []) \<and>
   chain_fn_v2 ChkMaxlen (no_rule\<lparr> maxlength := JNum (Fin 5) \<rparr>) JNull ''f'' ()
     = (Threw TypeError, (), [])"
  by (simp add: check_defs predicate_defs no_rule_def isInteger_Fin)


section \<open>The order of the checks\<close>




section \<open>A failed maxlength check\<close>





section \<open>The required check\<close>



section \<open>The message of a failed custom validator\<close>

text \<open>What the custom check returns when the validator throws or rejects with a payload
  other than \<open>null\<close>, and the message of the rule that is then reported: the payload's
  message when it is truthy, the rule's own message otherwise.\<close>

lemma custom_failure_message:
  assumes "\<not> isEmpty v" and "validator rule = Function f"
    and "fst (f v w) = Throws p \<or> fst (f v w) = ReturnsPromise (Rejects p)"
    and "p \<noteq> JNull"
  shows "fst (customValidate rule v field w) =
           Returned (RFail (case p of
                              JStr s \<Rightarrow> JStr s
                            | JObj _ ps \<Rightarrow> (case map_of ps ''message'' of Some x \<Rightarrow> x | None \<Rightarrow> JUndefined)
                            | JArr _ _ \<Rightarrow> JUndefined
                            | _ \<Rightarrow> JStr []))"
  using assms
  by (cases p; cases "f v w")
     (auto simp: customValidate_def custom_check_def caught_def caught_message_def
           split: option.splits)

lemma reported_message:
  "fst (report V field fieldWrap rule (RFail m) w) =
     (if fieldWrap then Wrapped field else Bare)
       (rule\<lparr> message := if truthy m then Msg m else message rule \<rparr>)"
  by (cases "report V field fieldWrap rule (RFail m) w")
     (auto dest!: report_events simp: resolve_message_def)

lemma scenario_4:
  "fst (validateField \<lparr> v_rules = [(''pwd'', [secret_rule])], v_transform = TransformValue JUndefined,
                        v_messageHook = None \<rparr> ''pwd'' (JObj 1 [(''pwd'', JStr ''x'')]) False ())
     = Inr (Rejected (Bare (secret_rule\<lparr> message := Msg (JStr ''wrong'') \<rparr>)))"
  by (simp add: driver_defs check_defs predicate_defs example_defs)

text \<open>
  \<^bold>\<open>C4\<close>. The claim: a validator that fails with a payload giving no message is reported
  with the rule's own message. Rejecting with \<open>null\<close> (or throwing it) gives no report at
  all: in the \<open>catch\<close> block \<open>typeof err === 'object'\<close> holds for \<open>null\<close>, reading
  \<open>err.message\<close> throws, and the promise of \<open>validateField\<close> never settles.
\<close>

theorem null_payload_never_settles:
  "customValidate null_rule (JStr ''x'') ''pwd'' () = (Threw TypeError, (), [Invoked (JStr ''x'')]) \<and>
   fst (validateField \<lparr> v_rules = [(''pwd'', [null_rule])], v_transform = TransformValue JUndefined,
                        v_messageHook = None \<rparr> ''pwd'' (JObj 1 [(''pwd'', JStr ''x'')]) False ())
     = Inr Pending"
  by (simp add: driver_defs check_defs predicate_defs example_defs)

section \<open>validator-2.0.0.js without a transform\<close>

lemma map_of_normalised:
  "map_of (map (\<lambda>(field, item). (field, normalise item)) rs) field = None
     \<longleftrightarrow> field \<notin> fst ` set rs"
  by (induction rs) auto

lemma join_tasks_pending: "Pending \<in> set ts \<Longrightarrow> join_tasks ts = Pending"
proof -
  assume "Pending \<in> set ts"
  then have "list_ex is_pending ts" by (force simp: list_ex_iff is_pending_def)
  then show ?thesis by (simp only: join_tasks_def if_True)
qed

lemma all_pending:
  "\<forall>f \<in> set fs. g f = Inr Pending \<Longrightarrow> [t. Inr t \<leftarrow> map g fs] = map (\<lambda>_. Pending) fs"
  by (induction fs) auto

text \<open>
  \<^bold>\<open>C9\<close>, as amended. An instance of validator-2.0.0.js constructed without a transform
  option, on a form that passes the guard: \<open>validateField\<close> on a configured field returns
  a promise that never settles, before any callback is called; \<open>validate\<close> never settles
  when at least one field is configured, and resolves when none is.
\<close>

theorem without_transform_never_settles:
  assumes "new_Validator_v2 config = Inr V" and "transform config = TransformValue JUndefined"
    and "isObject form"
  shows "(field \<in> fst ` set (rules config) \<longrightarrow> validateField_v2 V field form w = (Inr Pending, w, [])) \<and>
         (rules config \<noteq> [] \<longrightarrow> validate_v2 V form w = Inr Pending) \<and>
         (rules config = [] \<longrightarrow> validate_v2 V form w = Inr Resolved)"
proof -
  from assms(1,2) have V: "v_rules V = map (\<lambda>(field, item). (field, normalise item)) (rules config)"
      "v_transform V = TransformValue JUndefined"
    by (auto simp: new_Validator_v2_def split: if_splits)
  have pend: "validateField_v2 V f form w = (Inr Pending, w, [])" if "f \<in> fst ` set (rules config)" for f
  proof -
    from that have "map_of (v_rules V) f \<noteq> None" by (simp add: V(1) map_of_normalised)
    then obtain rs where "map_of (v_rules V) f = Some rs" by auto
    with assms(3) V(2) show ?thesis
      by (simp add: validateField_v2_def lookup_transform_def)
  qed
  have keys: "set (map fst (v_rules V)) = fst ` set (rules config)"
    by (force simp: V(1))
  let ?tasks = "[t. Inr t \<leftarrow> map (\<lambda>field. fst (validateField_v2 V field form w)) (map fst (v_rules V))]"
  have all: "?tasks = map (\<lambda>_. Pending) (map fst (v_rules V))"
  proof -
    have "\<forall>f \<in> set (map fst (v_rules V)). fst (validateField_v2 V f form w) = Inr Pending"
      using pend keys by auto
    then show ?thesis by (rule all_pending)
  qed
  have nonempty: "validate_v2 V form w = Inr Pending" if "rules config \<noteq> []"
  proof -
    from that V(1) have "v_rules V \<noteq> []" by simp
    then have "Pending \<in> set ?tasks" unfolding all by (cases "v_rules V") auto
    then show ?thesis by (simp add: validate_v2_object [OF assms(3)] join_tasks_pending)
  qed
  have empty: "validate_v2 V form w = Inr Resolved" if "rules config = []"
    using that V(1) by (simp add: validate_v2_object [OF assms(3)] join_tasks_def)
  from pend nonempty empty show ?thesis by blast
qed

theorem without_transform_never_settles_witness:
  "new_Validator_v2 name_config = Inr name_validator \<and>
   transform name_config = TransformValue JUndefined \<and> isObject filled_form \<and>
   ''name'' \<in> fst ` set (rules name_config) \<and> rules name_config \<noteq> [] \<and>
   validateField_v2 name_validator ''name'' filled_form () = (Inr Pending, (), []) \<and>
   validate_v2 name_validator filled_form () = Inr Pending \<and>
   new_Validator_v2 empty_config = Inr no_fields \<and>
   transform empty_config = TransformValue JUndefined \<and> rules empty_config = [] \<and>
   validate_v2 no_fields filled_form () = Inr Resolved"
proof -
  have h: "new_Validator_v2 name_config = Inr name_validator"
      "transform name_config = TransformValue JUndefined" "isObject filled_form"
    by (simp_all add: example_defs driver_defs predicate_defs)
  have h': "''name'' \<in> fst ` set (rules name_config)" "rules name_config \<noteq> []"
    by (simp_all add: example_defs)
  have e: "new_Validator_v2 empty_config = Inr no_fields"
      "transform empty_config = TransformValue JUndefined"
    by (simp_all add: example_defs driver_defs predicate_defs)
  have e': "rules empty_config = []" by (simp add: example_defs)
  from without_transform_never_settles [OF h, of "''name''" "()"] h'
  have c: "validateField_v2 name_validator ''name'' filled_form () = (Inr Pending, (), [])"
      "validate_v2 name_validator filled_form () = Inr Pending"
    by simp_all
  from without_transform_never_settles [OF e h(3), of "''name''" "()"] e'
  have "validate_v2 no_fields filled_form () = Inr Resolved" by simp
  with h h' e e' c show ?thesis by simp
qed

text \<open>The claim says that \<open>validate\<close> on such an instance never settles. With no field
  configured there is no task, and it resolves.\<close>

theorem validate_v2_no_fields_resolves:
  "new_Validator_v2 empty_config = Inr no_fields \<and> validate_v2 no_fields (JObj 0 []) () = Inr Resolved"
  by (simp add: example_defs driver_defs predicate_defs)


section \<open>\<open>validate\<close> collects the failures of all fields\<close>



















section \<open>The transform is called at every step\<close>











end
